theory Spec2Isabelle
  imports Complex_Main "HOL-Library.Char_ord" "HOL-Library.List_Lexorder"
begin

section \<open>JavaScript values used by the dashboard\<close>

text \<open>
  Strings are lists of code units below 256; \<open>length\<close> is JavaScript's \<open>.length\<close> on
  such strings. Numbers are exact rationals: the rounding of IEEE doubles is not
  modelled, and the infinite and not-a-number results that the code can produce are
  written out where they arise.
\<close>

definition digit_char :: "nat \<Rightarrow> char" where
  "digit_char d = char_of (48 + d)"

fun show_nat :: "nat \<Rightarrow> string" where
  "show_nat n = (if n < 10 then [digit_char n] else show_nat (n div 10) @ [digit_char (n mod 10)])"

declare show_nat.simps [simp del]

definition show_int :: "int \<Rightarrow> string" where
  "show_int i = (if i < 0 then CHR ''-'' # show_nat (nat (- i)) else show_nat (nat i))"

text \<open>
  A parsed JSON document. The elements of an array are of a type of their own, so that
  the array of trace records the endpoint sends is a \<open>trace list\<close>. An object is the list
  of its own properties, each key once.
\<close>

datatype 'a json =
    JNull
  | JBool bool
  | JNum rat
  | JStr string
  | JArr "'a list"
  | JObj "(string \<times> 'a json) list"

text \<open>A thrown value: the error's \<open>name\<close> and its \<open>message\<close>.\<close>

datatype js_error = JsError string string

fun message :: "js_error \<Rightarrow> string" where
  "message (JsError n m) = m"

fun error_name :: "js_error \<Rightarrow> string" where
  "error_name (JsError n m) = n"

text \<open>\<open>String(err)\<close> for an error object.\<close>

definition string_of_error :: "js_error \<Rightarrow> string" where
  "string_of_error e =
     (if message e = [] then error_name e else error_name e @ '': '' @ message e)"

text \<open>Truthiness of an optional JSON value; \<open>None\<close> is \<open>undefined\<close>.\<close>

fun truthy :: "'a json option \<Rightarrow> bool" where
  "truthy None = False"
| "truthy (Some JNull) = False"
| "truthy (Some (JBool b)) = b"
| "truthy (Some (JNum n)) = (n \<noteq> 0)"
| "truthy (Some (JStr s)) = (s \<noteq> [])"
| "truthy (Some (JArr xs)) = True"
| "truthy (Some (JObj kvs)) = True"

section \<open>fetchTraces\<close>

text \<open>
  The response of \<open>fetch\<close>: its status, and what \<open>res.json()\<close> gives: the parsed body, or
  \<open>Inl m\<close> when the body is not JSON and the promise rejects with a SyntaxError of
  message \<open>m\<close>. \<open>res.ok\<close> is the Fetch standard's: the status is in 200..299.
\<close>

record 'a response =
  status :: nat
  body :: "string + 'a json"

definition ok :: "'a response \<Rightarrow> bool" where
  "ok res = (200 \<le> status res \<and> status res \<le> 299)"

definition isArray :: "'a json \<Rightarrow> bool" where
  "isArray d = (case d of JArr xs \<Rightarrow> True | _ \<Rightarrow> False)"

text \<open>
  \<open>data.traces\<close>: reading a property of \<open>null\<close> throws a TypeError (the wording of its
  message is the engine's); a boolean, a number and a string have no such property.
\<close>

fun get_traces :: "'a json \<Rightarrow> js_error + 'a json option" where
  "get_traces JNull =
     Inl (JsError ''TypeError'' ''Cannot read properties of null (reading 'traces')'')"
| "get_traces (JObj kvs) = Inr (map_of kvs ''traces'')"
| "get_traces d = Inr None"

text \<open>
  The argument is what \<open>await fetch(...)\<close> gives: \<open>Inl e\<close> when the request itself fails
  (the rejection propagates), \<open>Inr res\<close> otherwise.
\<close>

definition fetchTraces :: "js_error + 'a response \<Rightarrow> js_error + 'a json" where
  "fetchTraces fetched =
     (case fetched of
        Inl e \<Rightarrow> Inl e
      | Inr res \<Rightarrow>
          if \<not> ok res
          then Inl (JsError ''Error'' (''Failed to fetch traces: '' @ show_nat (status res)))
          else (case body res of
                  Inl m \<Rightarrow> Inl (JsError ''SyntaxError'' m)
                | Inr d \<Rightarrow>
                    if isArray d then Inr d
                    else (case get_traces d of
                            Inl e \<Rightarrow> Inl e
                          | Inr t \<Rightarrow> if truthy t then Inr (the t) else Inr (JArr []))))"

section \<open>Trace records\<close>

text \<open>Every field may be absent or \<open>null\<close>: \<open>None\<close>.\<close>

record trace =
  time :: "string option"
  model :: "string option"
  latency_ms :: "rat option"
  total_tokens :: "rat option"
  input_tokens :: "rat option"
  output_tokens :: "rat option"
  input_content :: "string option"
  output_content :: "string option"

text \<open>\<open>v || 0\<close> on an optional number: absent, \<open>null\<close> and \<open>0\<close> all give \<open>0\<close>.\<close>

definition or0 :: "rat option \<Rightarrow> rat" where
  "or0 v = (case v of None \<Rightarrow> 0 | Some n \<Rightarrow> if n = 0 then 0 else n)"

text \<open>\<open>s || ''\<close> on an optional string.\<close>

definition or_empty :: "string option \<Rightarrow> string" where
  "or_empty v = (case v of None \<Rightarrow> [] | Some s \<Rightarrow> if s = [] then [] else s)"

section \<open>updateKpis\<close>

text \<open>
  The three values \<open>updateKpis\<close> computes before it formats them (\<open>toLocaleString\<close>,
  \<open>toFixed(1)\<close>) into the page. \<open>reduce\<close> is \<open>foldl\<close>.
\<close>

record kpis =
  total :: nat
  avgLatency :: rat
  avgTokens :: rat

definition updateKpis :: "trace list \<Rightarrow> kpis" where
  "updateKpis items =
     (let total = length items;
          avgLatency = (if total \<noteq> 0
                        then foldl (\<lambda>sum x. sum + or0 (latency_ms x)) 0 items / of_nat total
                        else 0);
          avgTokens = (if total \<noteq> 0
                       then foldl (\<lambda>sum x. sum + or0 (total_tokens x)) 0 items / of_nat total
                       else 0)
      in \<lparr>total = total, avgLatency = avgLatency, avgTokens = avgTokens\<rparr>)"

section \<open>updatePaginationControls\<close>

text \<open>
  The values \<open>Math.ceil(totalItems / perPage)\<close> takes for natural arguments: a division
  by zero gives \<open>Infinity\<close>, or \<open>NaN\<close> for \<open>0 / 0\<close>.
\<close>

datatype jsnum = Num int | PosInf | NaN

definition ceil_div :: "nat \<Rightarrow> nat \<Rightarrow> jsnum" where
  "ceil_div totalItems perPage =
     (if perPage = 0 then (if totalItems = 0 then NaN else PosInf)
      else Num \<lceil>(of_nat totalItems :: rat) / of_nat perPage\<rceil>)"

text \<open>\<open>t <= 1\<close>, \<open>page >= t\<close>, \<open>page < t\<close> and the text of \<open>t\<close> in a template string.\<close>

fun le_one :: "jsnum \<Rightarrow> bool" where
  "le_one (Num n) = (n \<le> 1)"
| "le_one PosInf = False"
| "le_one NaN = False"

fun ge_num :: "int \<Rightarrow> jsnum \<Rightarrow> bool" where
  "ge_num p (Num n) = (p \<ge> n)"
| "ge_num p PosInf = False"
| "ge_num p NaN = False"

fun lt_num :: "int \<Rightarrow> jsnum \<Rightarrow> bool" where
  "lt_num p (Num n) = (p < n)"
| "lt_num p PosInf = True"
| "lt_num p NaN = False"

fun show_jsnum :: "jsnum \<Rightarrow> string" where
  "show_jsnum (Num n) = show_int n"
| "show_jsnum PosInf = ''Infinity''"
| "show_jsnum NaN = ''NaN''"

text \<open>
  The part of the page the function writes: the \<open>hidden\<close> class of the controls, the
  text of \<open>pageInfo\<close>, and the \<open>disabled\<close> flags of the two buttons. When it hides the
  controls it returns before touching the rest.
\<close>

record pagination =
  hidden :: bool
  pageInfo :: string
  prevDisabled :: bool
  nextDisabled :: bool

definition updatePaginationControls :: "nat \<Rightarrow> int \<Rightarrow> nat \<Rightarrow> pagination \<Rightarrow> pagination" where
  "updatePaginationControls totalItems page perPage ctl =
     (let totalPages = ceil_div totalItems perPage
      in if totalItems = 0 \<or> le_one totalPages
         then ctl\<lparr>hidden := True\<rparr>
         else ctl\<lparr>hidden := False,
                  pageInfo := ''Page '' @ show_int page @ '' of '' @ show_jsnum totalPages,
                  prevDisabled := (page \<le> 1),
                  nextDisabled := ge_num page totalPages\<rparr>)"

section \<open>updateTable: the input and output cells\<close>

definition PREVIEW_LENGTH :: nat where
  "PREVIEW_LENGTH = 60"

definition ROWS_PER_PAGE :: nat where
  "ROWS_PER_PAGE = 10"

text \<open>
  The text of an input or output cell: \<open>(c || '').slice(0, PREVIEW_LENGTH)\<close>, then
  \<open>'...'\<close> when the preview is shorter than \<open>c?.length || 0\<close>. The cell's title is
  \<open>c || ''\<close>.
\<close>

definition content_length :: "string option \<Rightarrow> nat" where
  "content_length c = (case c of None \<Rightarrow> 0 | Some s \<Rightarrow> length s)"

definition preview_text :: "string option \<Rightarrow> string" where
  "preview_text c =
     (let preview = take PREVIEW_LENGTH (or_empty c)
      in preview @ (if length preview < content_length c then ''...'' else ''''))"

text \<open>\<open>Array.prototype.slice(start, end)\<close> for integer arguments.\<close>

definition js_index :: "nat \<Rightarrow> int \<Rightarrow> nat" where
  "js_index len i = (if i < 0 then nat (max (int len + i) 0) else min (nat i) len)"

definition js_slice :: "'a list \<Rightarrow> int \<Rightarrow> int \<Rightarrow> 'a list" where
  "js_slice xs start end' =
     (let k = js_index (length xs) start; final = js_index (length xs) end'
      in drop k (take final xs))"

record row =
  inputText :: string
  inputTitle :: string
  outputText :: string
  outputTitle :: string

definition render_row :: "trace \<Rightarrow> row" where
  "render_row item =
     \<lparr>inputText = preview_text (input_content item),
      inputTitle = or_empty (input_content item),
      outputText = preview_text (output_content item),
      outputTitle = or_empty (output_content item)\<rparr>"

text \<open>
  The rows of the page and the pagination controls. The time, model, latency and token
  cells depend on the locale of the browser and are left out.
\<close>

definition updateTable :: "trace list \<Rightarrow> int \<Rightarrow> nat \<Rightarrow> pagination \<Rightarrow> row list \<times> pagination" where
  "updateTable items page perPage ctl =
     (let start = (page - 1) * int perPage;
          end' = start + int perPage;
          pageItems = js_slice items start end'
      in (map render_row pageItems, updatePaginationControls (length items) page perPage ctl))"

section \<open>groupByDay and buildSeriesByMetric\<close>

record day_bucket =
  date :: string
  totalLatency :: rat
  totalTokens :: rat
  count :: nat

text \<open>
  The UTC fields of a valid \<open>Date\<close>: the year, the month 1..12, the day 1..31 and the
  time of the day. \<open>toISOString\<close> is ECMAScript's: a year 0..9999 is written with four
  digits, any other year with a sign and six digits; the other fields have two digits,
  the milliseconds three.
\<close>

record utc_fields =
  utc_year :: int
  utc_month :: nat
  utc_day :: nat
  utc_hours :: nat
  utc_minutes :: nat
  utc_seconds :: nat
  utc_ms :: nat

fun fixed_digits :: "nat \<Rightarrow> nat \<Rightarrow> string" where
  "fixed_digits 0 n = []"
| "fixed_digits (Suc w) n = fixed_digits w (n div 10) @ [digit_char (n mod 10)]"









record series =
  labels :: "string list"
  data :: "rat list"
  label :: string

definition buildSeriesByMetric :: "day_bucket list \<Rightarrow> string \<Rightarrow> series" where
  "buildSeriesByMetric days metric =
     (let labels = map date days
      in if metric = ''avgLatency''
         then \<lparr>labels = labels,
               data = map (\<lambda>d. if count d \<noteq> 0 then totalLatency d / of_nat (count d) else 0) days,
               label = ''Average latency (ms) per day''\<rparr>
         else if metric = ''totalCalls''
         then \<lparr>labels = labels, data = map (\<lambda>d. of_nat (count d)) days,
               label = ''Total calls per day''\<rparr>
         else if metric = ''totalTokens''
         then \<lparr>labels = labels, data = map totalTokens days,
               label = ''Total tokens per day''\<rparr>
         else \<lparr>labels = labels, data = [], label = ''Unknown Metric''\<rparr>)"

section \<open>onLoadClick\<close>

definition MAX_LIMIT :: int where
  "MAX_LIMIT = 200"

definition DEFAULT_LIMIT :: int where
  "DEFAULT_LIMIT = 50"

text \<open>
  \<open>parseInt(s, 10)\<close>: leading white space is skipped, then an optional sign, then the
  longest run of decimal digits; what follows the digits is ignored. \<open>None\<close> is \<open>NaN\<close>:
  there is no digit.
\<close>

definition isWhiteSpace :: "char \<Rightarrow> bool" where
  "isWhiteSpace c = (of_char c \<in> {9, 10, 11, 12, 13, 32, 160 :: nat})"

definition isDigit :: "char \<Rightarrow> bool" where
  "isDigit c = (48 \<le> (of_char c :: nat) \<and> (of_char c :: nat) \<le> 57)"

definition digits_value :: "string \<Rightarrow> nat" where
  "digits_value ds = foldl (\<lambda>a c. 10 * a + (of_char c - 48)) 0 ds"

definition parseInt :: "string \<Rightarrow> int option" where
  "parseInt s =
     (let t = dropWhile isWhiteSpace s;
          negative = (case t of c # r \<Rightarrow> c = CHR ''-'' | [] \<Rightarrow> False);
          u = (case t of c # r \<Rightarrow> if c = CHR ''-'' \<or> c = CHR ''+'' then r else t | [] \<Rightarrow> t);
          ds = takeWhile isDigit u
      in if ds = [] then None
         else Some (if negative then - int (digits_value ds) else int (digits_value ds)))"

text \<open>
  The state the handler reads and writes: the three variables of the module, the value
  of the \<open>limit\<close> input, the load button, the calls of \<open>window.showSuccess\<close>,
  \<open>showError\<close>, \<open>showInfo\<close> and \<open>showWarning\<close> in order, and the limits of the
  requests issued by \<open>fetchTraces\<close> in order.
\<close>

datatype toast_kind = ShowSuccess | ShowError | ShowInfo | ShowWarning

record dashboard =
  allItems :: "trace list"
  currentPage :: int
  isLoading :: bool
  limitInput :: string
  btnText :: string
  btnDisabled :: bool
  shown :: "(toast_kind \<times> string) list"
  fetches :: "int list"

definition notify :: "toast_kind \<Rightarrow> string \<Rightarrow> dashboard \<Rightarrow> dashboard" where
  "notify k msg s = s\<lparr>shown := shown s @ [(k, msg)]\<rparr>"

text \<open>
  The handler is asynchronous. \<open>onLoadClick_begin\<close> is what runs when the button is
  clicked, up to the \<open>await\<close> of the request; \<open>onLoadClick_settle\<close> is what runs when
  \<open>fetchTraces\<close> has resolved with an array of trace records or has rejected. The
  renderings of the success branch (\<open>updateKpis\<close>, \<open>updateTable\<close> and the two
  charts) write to the page only and are not part of this state.
\<close>

definition onLoadClick_begin :: "dashboard \<Rightarrow> dashboard" where
  "onLoadClick_begin s =
     (if isLoading s then notify ShowWarning ''Already loading...'' s
      else
        let parsed = parseInt (limitInput s);
            invalid = (case parsed of None \<Rightarrow> True | Some l \<Rightarrow> l < 1 \<or> l > MAX_LIMIT);
            limit = (if invalid then DEFAULT_LIMIT else the parsed);
            s1 = (if invalid
                  then notify ShowWarning (''Limit reset to '' @ show_int DEFAULT_LIMIT)
                         (s\<lparr>limitInput := show_int DEFAULT_LIMIT\<rparr>)
                  else s);
            s2 = s1\<lparr>btnText := ''Loading...'', btnDisabled := True, isLoading := True\<rparr>;
            s3 = notify ShowInfo ''Loading traces...'' s2
        in s3\<lparr>fetches := fetches s3 @ [limit]\<rparr>)"

definition onLoadClick_settle :: "js_error + trace list \<Rightarrow> dashboard \<Rightarrow> dashboard" where
  "onLoadClick_settle outcome s =
     (let s1 = (case outcome of
                  Inr items \<Rightarrow>
                    notify ShowSuccess (''Loaded '' @ show_nat (length items) @ '' traces'')
                      (s\<lparr>allItems := items, currentPage := 1\<rparr>)
                | Inl err \<Rightarrow>
                    notify ShowError
                      (if message err \<noteq> [] then message err else string_of_error err) s)
      in s1\<lparr>btnText := ''Load'', btnDisabled := False, isLoading := False\<rparr>)"

text \<open>The two page buttons; each re-renders the table after it has moved the page.\<close>

definition goToNextPage :: "dashboard \<Rightarrow> dashboard" where
  "goToNextPage s =
     (if lt_num (currentPage s) (ceil_div (length (allItems s)) ROWS_PER_PAGE)
      then s\<lparr>currentPage := currentPage s + 1\<rparr>
      else s)"

definition goToPrevPage :: "dashboard \<Rightarrow> dashboard" where
  "goToPrevPage s = (if currentPage s > 1 then s\<lparr>currentPage := currentPage s - 1\<rparr> else s)"

section \<open>NotificationManager\<close>

text \<open>
  Elements are numbered in the order of their creation. The manager's state is the
  children of its container (an element has a parent when it is among them), the
  tracking array \<open>notifications\<close>, the elements that carry the class \<open>slide-out\<close>, and
  the callbacks handed to \<open>setTimeout\<close> with the time at which each is due. The
  markup \<open>createNotification\<close> builds from the message, the type and the title is not
  modelled.
\<close>

datatype timer = AutoDismiss nat | Removal nat

record manager =
  container :: "nat list"
  notifications :: "nat list"
  sliding :: "nat list"
  timers :: "(nat \<times> timer) list"
  clock :: nat
  fresh :: nat

definition maxNotifications :: nat where
  "maxNotifications = 5"

definition new_manager :: manager where
  "new_manager = \<lparr>container = [], notifications = [], sliding = [], timers = [],
                   clock = 0, fresh = 0\<rparr>"

definition setTimeout :: "timer \<Rightarrow> nat \<Rightarrow> manager \<Rightarrow> manager" where
  "setTimeout cb delay m = m\<lparr>timers := timers m @ [(clock m + delay, cb)]\<rparr>"

text \<open>
  \<open>dismiss\<close> only marks the element and schedules its removal 300 ms later; the
  argument \<open>None\<close> is \<open>undefined\<close>.
\<close>

definition dismiss :: "nat option \<Rightarrow> manager \<Rightarrow> manager" where
  "dismiss notification m =
     (case notification of
        None \<Rightarrow> m
      | Some n \<Rightarrow>
          if n \<notin> set (container m) then m
          else setTimeout (Removal n) 300 (m\<lparr>sliding := List.insert n (sliding m)\<rparr>))"

text \<open>The callback of \<open>dismiss\<close>, run when its timer fires.\<close>

definition removal :: "nat \<Rightarrow> manager \<Rightarrow> manager" where
  "removal n m =
     (let m1 = (if n \<in> set (container m) then m\<lparr>container := remove1 n (container m)\<rparr> else m)
      in if n \<in> set (notifications m1)
         then m1\<lparr>notifications := remove1 n (notifications m1)\<rparr>
         else m1)"

definition first_notification :: "manager \<Rightarrow> nat option" where
  "first_notification m = (case notifications m of [] \<Rightarrow> None | n # rest \<Rightarrow> Some n)"

text \<open>\<open>show(message, type, title, duration)\<close>; the result is the new element.\<close>

definition nm_show :: "nat \<Rightarrow> manager \<Rightarrow> nat \<times> manager" where
  "nm_show duration m =
     (let m1 = (if length (notifications m) \<ge> maxNotifications
                then dismiss (first_notification m) m else m);
          notification = fresh m1;
          m2 = m1\<lparr>container := container m1 @ [notification],
                   notifications := notifications m1 @ [notification],
                   fresh := notification + 1\<rparr>;
          m3 = (if duration > 0 then setTimeout (AutoDismiss notification) duration m2 else m2)
      in (notification, m3))"

text \<open>
  The event loop between two calls: the pending callback that is due first (the one
  scheduled first among equals) runs, at its due time.
\<close>

fun earliest :: "(nat \<times> timer) list \<Rightarrow> (nat \<times> timer) option" where
  "earliest [] = None"
| "earliest (x # xs) =
     (case earliest xs of
        None \<Rightarrow> Some x
      | Some y \<Rightarrow> if fst y < fst x then Some y else Some x)"

definition fire :: "timer \<Rightarrow> manager \<Rightarrow> manager" where
  "fire cb m = (case cb of AutoDismiss n \<Rightarrow> dismiss (Some n) m | Removal n \<Rightarrow> removal n m)"

definition run_timer :: "manager \<Rightarrow> manager" where
  "run_timer m =
     (case earliest (timers m) of
        None \<Rightarrow> m
      | Some (due, cb) \<Rightarrow>
          fire cb (m\<lparr>timers := remove1 (due, cb) (timers m), clock := max (clock m) due\<rparr>))"

text \<open>\<open>n\<close> calls of \<open>show\<close> in one turn of the event loop: no timer fires in between.\<close>

fun show_many :: "nat \<Rightarrow> nat \<Rightarrow> manager \<Rightarrow> manager" where
  "show_many 0 duration m = m"
| "show_many (Suc n) duration m = show_many n duration (snd (nm_show duration m))"

section \<open>Notions of the specification and sample values\<close>

text \<open>
  The UTC calendar day of a record, as the specification has it: none when the
  timestamp is missing, empty or not a date. A plain day is a day of a year 0000..9999;
  its date string is \<open>YYYY-MM-DD\<close>.
\<close>

definition utc_day_of :: "(string \<Rightarrow> utc_fields option) \<Rightarrow> trace \<Rightarrow> (int \<times> nat \<times> nat) option" where
  "utc_day_of newDate x =
     (case time x of
        None \<Rightarrow> None
      | Some t \<Rightarrow>
          if t = [] then None
          else map_option (\<lambda>d. (utc_year d, utc_month d, utc_day d)) (newDate t))"






text \<open>The number of pages of the specification, \<open>ceil(total / perPage)\<close>.\<close>

definition page_count :: "nat \<Rightarrow> nat \<Rightarrow> int" where
  "page_count totalItems perPage = \<lceil>(of_nat totalItems :: rat) / of_nat perPage\<rceil>"

text \<open>
  The pages of the list the dashboard holds: 1 up to the number of pages, and page 1
  when the list is empty.
\<close>

definition page_in_range :: "dashboard \<Rightarrow> bool" where
  "page_in_range s =
     (1 \<le> currentPage s
      \<and> currentPage s \<le> max 1 (page_count (length (allItems s)) ROWS_PER_PAGE))"

text \<open>
  A numeric limit, as the specification means it: the text of an integer, an optional
  sign and then digits only.
\<close>

definition is_integer_text :: "string \<Rightarrow> bool" where
  "is_integer_text v =
     (let u = (case v of c # r \<Rightarrow> if c = CHR ''-'' \<or> c = CHR ''+'' then r else v | [] \<Rightarrow> v)
      in u \<noteq> [] \<and> list_all isDigit u)"

text \<open>A bucket receives a record; the bucket a key starts with; a well-formed dictionary.\<close>

definition credit :: "trace \<Rightarrow> day_bucket \<Rightarrow> day_bucket" where
  "credit x b = b\<lparr>totalLatency := totalLatency b + or0 (latency_ms x),
                  totalTokens := totalTokens b + or0 (total_tokens x),
                  count := count b + 1\<rparr>"

definition credit_all :: "trace list \<Rightarrow> day_bucket \<Rightarrow> day_bucket" where
  "credit_all xs b = foldl (\<lambda>b x. credit x b) b xs"



text \<open>The dashboard when the page has loaded, and the pagination controls of the markup.\<close>

definition idle :: dashboard where
  "idle = \<lparr>allItems = [], currentPage = 1, isLoading = False, limitInput = ''50'',
           btnText = ''Load'', btnDisabled = False, shown = [], fetches = []\<rparr>"

definition with_limit :: "string \<Rightarrow> dashboard" where
  "with_limit v = idle\<lparr>limitInput := v\<rparr>"

definition blank_controls :: pagination where
  "blank_controls = \<lparr>hidden = True, pageInfo = [], prevDisabled = False, nextDisabled = False\<rparr>"

text \<open>The record of the specification's example, and four more for the aggregation.\<close>

definition sample_trace :: trace where
  "sample_trace = \<lparr>time = Some ''2024-01-01T10:00:00Z'', model = Some ''gpt-4'',
     latency_ms = Some 120, total_tokens = Some 50, input_tokens = None,
     output_tokens = None, input_content = None, output_content = None\<rparr>"

definition sample_items :: "trace list" where
  "sample_items =
     [sample_trace\<lparr>time := Some ''2024-01-02T08:00:00Z'', latency_ms := Some 100,
                    total_tokens := Some 10\<rparr>,
      sample_trace,
      sample_trace\<lparr>time := None, latency_ms := Some 999\<rparr>,
      sample_trace\<lparr>time := Some ''yesterday'', latency_ms := Some 7\<rparr>,
      sample_trace\<lparr>time := Some ''2024-01-01T23:30:00-05:00'', latency_ms := Some 80,
                    total_tokens := None\<rparr>]"

definition utc_midnight :: "int \<Rightarrow> nat \<Rightarrow> nat \<Rightarrow> utc_fields" where
  "utc_midnight y m d = \<lparr>utc_year = y, utc_month = m, utc_day = d, utc_hours = 0,
     utc_minutes = 0, utc_seconds = 0, utc_ms = 0\<rparr>"

definition sample_newDate :: "string \<Rightarrow> utc_fields option" where
  "sample_newDate =
     map_of [(''2024-01-02T08:00:00Z'', (utc_midnight 2024 1 2)\<lparr>utc_hours := 8\<rparr>),
             (''2024-01-01T10:00:00Z'', (utc_midnight 2024 1 1)\<lparr>utc_hours := 10\<rparr>),
             (''2024-01-01T23:30:00-05:00'',
                (utc_midnight 2024 1 2)\<lparr>utc_hours := 4, utc_minutes := 30\<rparr>),
             (''+010000-01-01T00:00:00Z'', utc_midnight 10000 1 1),
             (''+010000-01-15T00:00:00Z'', utc_midnight 10000 1 15)]"



definition sample_day :: day_bucket where
  "sample_day = \<lparr>date = ''2024-01-02'', totalLatency = 180, totalTokens = 10, count = 2\<rparr>"

definition response_404 :: "trace response" where
  "response_404 = \<lparr>status = 404, body = Inl ''Unexpected token''\<rparr>"

definition response_bare :: "trace response" where
  "response_bare = \<lparr>status = 200, body = Inr (JArr [sample_trace])\<rparr>"

definition response_wrapped :: "trace response" where
  "response_wrapped = \<lparr>status = 200, body = Inr (JObj [(''traces'', JArr [sample_trace])])\<rparr>"

definition response_other :: "trace response" where
  "response_other = \<lparr>status = 200, body = Inr (JObj [(''error'', JStr ''none'')])\<rparr>"

definition response_null :: "trace response" where
  "response_null = \<lparr>status = 201, body = Inr (JObj [(''traces'', JNull)])\<rparr>"

section \<open>The notification list\<close>

lemma nm_show_tracks_one_more:
  "length (notifications (snd (nm_show duration m))) = Suc (length (notifications m))"
  by (simp add: nm_show_def Let_def dismiss_def setTimeout_def split: option.splits)

lemma dismiss_keeps_notifications: "notifications (dismiss n m) = notifications m"
  by (simp add: dismiss_def setTimeout_def split: option.splits)

text \<open>
  C1. The list is meant to hold at most 5 notifications, the oldest leaving when a
  sixth is shown. In the code \<open>show\<close> appends the new notification at once, while
  \<open>dismiss\<close> removes the oldest only when its timer fires 300 ms later. Six calls of
  \<open>show\<close> in a row leave six notifications tracked. After seven calls for
  persistent notifications (duration 0) the two pending timers both remove the same
  oldest element, and six notifications stay tracked with no timer left to remove one.
\<close>

theorem show_exceeds_max:
  "length (notifications (show_many 6 5000 new_manager)) = 6
   \<and> notifications (run_timer (run_timer (show_many 7 0 new_manager))) = [1, 2, 3, 4, 5, 6]
   \<and> timers (run_timer (run_timer (show_many 7 0 new_manager))) = []"
  by code_simp

section \<open>The load guard\<close>

text \<open>
  C2. In every state whose loading flag is set, the load action shows the warning
  "Already loading..." and changes nothing else: the trace list, the current page and
  the loading flag are as before and no request is issued.
\<close>

theorem load_guard:
  "isLoading s \<Longrightarrow>
     onLoadClick_begin s = s\<lparr>shown := shown s @ [(ShowWarning, ''Already loading...'')]\<rparr>
   \<and> allItems (onLoadClick_begin s) = allItems s
   \<and> currentPage (onLoadClick_begin s) = currentPage s
   \<and> isLoading (onLoadClick_begin s)
   \<and> fetches (onLoadClick_begin s) = fetches s"
  by (simp add: onLoadClick_begin_def notify_def)

theorem load_guard_witness:
  "isLoading (onLoadClick_begin idle)
   \<and> onLoadClick_begin (onLoadClick_begin idle) =
       (onLoadClick_begin idle)\<lparr>shown := [(ShowInfo, ''Loading traces...''),
                                           (ShowWarning, ''Already loading...'')]\<rparr>
   \<and> allItems (onLoadClick_begin (onLoadClick_begin idle)) = []
   \<and> fetches (onLoadClick_begin (onLoadClick_begin idle)) = [50]"
proof -
  have h: "isLoading (onLoadClick_begin idle)"
    by code_simp
  have v: "shown (onLoadClick_begin idle) = [(ShowInfo, ''Loading traces...'')]"
      "allItems (onLoadClick_begin idle) = []" "fetches (onLoadClick_begin idle) = [50]"
    by code_simp+
  from load_guard [OF h] h v show ?thesis
    by simp
qed

section \<open>The trace request\<close>

lemma show_nat_404: "show_nat 404 = ''404''"
  by code_simp

text \<open>
  C3. A response whose status is not in the success class makes \<open>fetchTraces\<close> fail
  with an error whose message carries the status code. A successful response whose
  body is an array gives that array, and one whose body is an object with an array
  under \<open>traces\<close> gives the array under \<open>traces\<close>.
\<close>

theorem fetchTraces_status_and_shapes:
  "(\<not> ok res \<longrightarrow>
      fetchTraces (Inr res) =
        Inl (JsError ''Error'' (''Failed to fetch traces: '' @ show_nat (status res))))
   \<and> (ok res \<and> body res = Inr (JArr xs) \<longrightarrow> fetchTraces (Inr res) = Inr (JArr xs))
   \<and> (ok res \<and> body res = Inr (JObj kvs) \<and> map_of kvs ''traces'' = Some (JArr xs) \<longrightarrow>
        fetchTraces (Inr res) = Inr (JArr xs))"
  by (simp add: fetchTraces_def isArray_def)

theorem fetchTraces_status_and_shapes_witness:
  "\<not> ok response_404
   \<and> fetchTraces (Inr response_404) = Inl (JsError ''Error'' ''Failed to fetch traces: 404'')
   \<and> ok response_bare \<and> body response_bare = Inr (JArr [sample_trace])
   \<and> fetchTraces (Inr response_bare) = Inr (JArr [sample_trace])
   \<and> ok response_wrapped
   \<and> fetchTraces (Inr response_wrapped) = Inr (JArr [sample_trace])"
proof -
  have a: "\<not> ok response_404" "status response_404 = 404"
    by (simp_all add: ok_def response_404_def)
  have b: "ok response_bare" "body response_bare = Inr (JArr [sample_trace])"
    by (simp_all add: ok_def response_bare_def)
  have c: "ok response_wrapped"
      "body response_wrapped = Inr (JObj [(''traces'', JArr [sample_trace])])"
      "map_of [(''traces'', JArr [sample_trace])] ''traces'' = Some (JArr [sample_trace])"
    by (simp_all add: ok_def response_wrapped_def)
  from a b c show ?thesis
    using fetchTraces_status_and_shapes [of response_404]
      fetchTraces_status_and_shapes [of response_bare "[sample_trace]"]
      fetchTraces_status_and_shapes
        [of response_wrapped "[sample_trace]" "[(''traces'', JArr [sample_trace])]"]
    by (simp add: show_nat_404)
qed

text \<open>
  C10. A successful response whose body is an object that is not an array and has no
  \<open>traces\<close> property, or has \<open>null\<close> there, makes \<open>fetchTraces\<close> succeed with the
  empty array.
\<close>

theorem fetchTraces_missing_traces:
  "ok res \<Longrightarrow> body res = Inr (JObj kvs) \<Longrightarrow>
   map_of kvs ''traces'' = None \<or> map_of kvs ''traces'' = Some JNull \<Longrightarrow>
   fetchTraces (Inr res) = Inr (JArr [])"
  by (auto simp add: fetchTraces_def isArray_def)

theorem fetchTraces_missing_traces_witness:
  "ok response_other \<and> body response_other = Inr (JObj [(''error'', JStr ''none'')])
   \<and> map_of [(''error'', JStr ''none'' :: trace json)] ''traces'' = None
   \<and> fetchTraces (Inr response_other) = Inr (JArr [])
   \<and> ok response_null \<and> body response_null = Inr (JObj [(''traces'', JNull)])
   \<and> map_of [(''traces'', JNull :: trace json)] ''traces'' = Some JNull
   \<and> fetchTraces (Inr response_null) = Inr (JArr [])"
proof -
  have a: "ok response_other" "body response_other = Inr (JObj [(''error'', JStr ''none'')])"
      "map_of [(''error'', JStr ''none'' :: trace json)] ''traces'' = None"
    by (simp_all add: ok_def response_other_def)
  have b: "ok response_null" "body response_null = Inr (JObj [(''traces'', JNull)])"
      "map_of [(''traces'', JNull :: trace json)] ''traces'' = Some JNull"
    by (simp_all add: ok_def response_null_def)
  from a b show ?thesis
    using fetchTraces_missing_traces [OF a(1) a(2)] fetchTraces_missing_traces [OF b(1) b(2)]
    by simp
qed

section \<open>The KPI means\<close>

lemma foldl_add_sum_list: "foldl (\<lambda>s x. s + f x) a xs = a + sum_list (map f xs)"
  for a :: rat
  by (induction xs arbitrary: a) (simp_all add: add.assoc)

text \<open>
  C5. For a sequence that is not empty, the mean latency is the sum of the latencies
  divided by the number of records, and the mean token count is the sum of the token
  counts divided by the number of records (a missing value counts as 0). For the empty
  sequence both means are 0.
\<close>

theorem updateKpis_means:
  "(items \<noteq> [] \<longrightarrow>
      avgLatency (updateKpis items) =
        sum_list (map (\<lambda>x. or0 (latency_ms x)) items) / of_nat (length items)
    \<and> avgTokens (updateKpis items) =
        sum_list (map (\<lambda>x. or0 (total_tokens x)) items) / of_nat (length items))
   \<and> avgLatency (updateKpis []) = 0 \<and> avgTokens (updateKpis []) = 0"
  by (simp add: updateKpis_def Let_def foldl_add_sum_list)

theorem updateKpis_means_witness:
  "[sample_trace] \<noteq> []
   \<and> total (updateKpis [sample_trace]) = 1
   \<and> avgLatency (updateKpis [sample_trace]) = 120
   \<and> avgTokens (updateKpis [sample_trace]) = 50"
  using updateKpis_means [of "[sample_trace]"]
  by (simp add: sample_trace_def or0_def updateKpis_def)

section \<open>The table preview\<close>



section \<open>The series of a metric\<close>

text \<open>
  C9. For a metric that is none of \<open>avgLatency\<close>, \<open>totalCalls\<close> and \<open>totalTokens\<close>,
  and any day buckets, the series has no data and the label "Unknown Metric"; its
  labels are still the dates of the buckets. The function has no failing branch.
\<close>

theorem buildSeriesByMetric_unknown:
  "metric \<notin> {''avgLatency'', ''totalCalls'', ''totalTokens''} \<Longrightarrow>
   buildSeriesByMetric days metric =
     \<lparr>labels = map date days, data = [], label = ''Unknown Metric''\<rparr>"
  by (simp add: buildSeriesByMetric_def)

theorem buildSeriesByMetric_unknown_witness:
  "''p95'' \<notin> {''avgLatency'', ''totalCalls'', ''totalTokens''}
   \<and> buildSeriesByMetric [sample_day] ''p95'' =
       \<lparr>labels = [''2024-01-02''], data = [], label = ''Unknown Metric''\<rparr>"
proof -
  have h: "''p95'' \<notin> {''avgLatency'', ''totalCalls'', ''totalTokens''}"
    by simp
  from buildSeriesByMetric_unknown [OF h, of "[sample_day]"] h show ?thesis
    by (simp add: sample_day_def)
qed

section \<open>The limit of a load\<close>

lemma show_int_50: "show_int 50 = ''50''"
  by code_simp

lemma parseInt_examples:
  "parseInt ''0'' = Some 0" "parseInt ''-5'' = Some (- 5)" "parseInt ''abc'' = None"
  "parseInt ''500'' = Some 500" "parseInt ''1'' = Some 1" "parseInt ''200'' = Some 200"
  "parseInt ''12abc'' = Some 12"
  by code_simp+

text \<open>
  C4, as the code has it. When no load is pending, the load action reads the limit
  with \<open>parseInt(value, 10)\<close>, which skips leading white space, takes an optional sign
  and the longest run of digits and ignores what follows. When that gives an integer in
  1..200, the integer is the limit of the request, no warning is shown and the input
  control keeps its text. When there is no digit to read or the integer is outside
  1..200, the limit of the request is 50, the warning "Limit reset to 50" is shown and
  "50" is written to the input control.
\<close>

theorem limit_validation:
  "\<not> isLoading s \<Longrightarrow>
     (parseInt (limitInput s) = Some l \<and> 1 \<le> l \<and> l \<le> 200 \<longrightarrow>
        fetches (onLoadClick_begin s) = fetches s @ [l]
      \<and> limitInput (onLoadClick_begin s) = limitInput s
      \<and> shown (onLoadClick_begin s) = shown s @ [(ShowInfo, ''Loading traces...'')])
   \<and> (parseInt (limitInput s) = None
        \<or> parseInt (limitInput s) = Some l \<and> (l < 1 \<or> 200 < l) \<longrightarrow>
        fetches (onLoadClick_begin s) = fetches s @ [50]
      \<and> limitInput (onLoadClick_begin s) = ''50''
      \<and> shown (onLoadClick_begin s) =
          shown s @ [(ShowWarning, ''Limit reset to 50''), (ShowInfo, ''Loading traces...'')])"
  by (auto simp add: onLoadClick_begin_def notify_def Let_def MAX_LIMIT_def
        DEFAULT_LIMIT_def show_int_50)

theorem limit_validation_witness:
  "\<not> isLoading (with_limit ''abc'') \<and> parseInt (limitInput (with_limit ''abc'')) = None
   \<and> fetches (onLoadClick_begin (with_limit ''abc'')) = [50]
   \<and> limitInput (onLoadClick_begin (with_limit ''abc'')) = ''50''
   \<and> shown (onLoadClick_begin (with_limit ''abc'')) =
       [(ShowWarning, ''Limit reset to 50''), (ShowInfo, ''Loading traces...'')]
   \<and> fetches (onLoadClick_begin (with_limit ''0'')) = [50]
   \<and> fetches (onLoadClick_begin (with_limit ''-5'')) = [50]
   \<and> fetches (onLoadClick_begin (with_limit ''500'')) = [50]
   \<and> \<not> isLoading (with_limit ''200'') \<and> parseInt (limitInput (with_limit ''200'')) = Some 200
   \<and> fetches (onLoadClick_begin (with_limit ''200'')) = [200]
   \<and> limitInput (onLoadClick_begin (with_limit ''200'')) = ''200''
   \<and> shown (onLoadClick_begin (with_limit ''200'')) = [(ShowInfo, ''Loading traces...'')]
   \<and> fetches (onLoadClick_begin (with_limit ''1'')) = [1]"
proof -
  have i: "\<not> isLoading (with_limit v)" "limitInput (with_limit v) = v"
      "fetches (with_limit v) = []" "shown (with_limit v) = []" for v
    by (simp_all add: with_limit_def idle_def)
  show ?thesis
    using limit_validation [OF i(1), of "''abc''" 0] limit_validation [OF i(1), of "''0''" 0]
      limit_validation [OF i(1), of "''-5''" "- 5"] limit_validation [OF i(1), of "''500''" 500]
      limit_validation [OF i(1), of "''200''" 200] limit_validation [OF i(1), of "''1''" 1]
    by (simp add: i parseInt_examples)
qed

text \<open>
  The claim as the specification states it fails at the limit "12abc": the text is not
  numeric, yet the request is issued with the limit 12, no warning is shown and the
  input control keeps its text.
\<close>

theorem limit_validation_counterexample:
  "\<not> is_integer_text ''12abc''
   \<and> fetches (onLoadClick_begin (with_limit ''12abc'')) = [12]
   \<and> limitInput (onLoadClick_begin (with_limit ''12abc'')) = ''12abc''
   \<and> shown (onLoadClick_begin (with_limit ''12abc'')) = [(ShowInfo, ''Loading traces...'')]"
  by code_simp

section \<open>The pagination controls\<close>

lemma ceil_div_page_count:
  "0 < perPage \<Longrightarrow> ceil_div totalItems perPage = Num (page_count totalItems perPage)"
  by (simp add: ceil_div_def page_count_def)

lemma page_count_zero: "page_count 0 perPage = 0"
  by (simp add: page_count_def)

lemma page_count_25_10: "page_count 25 10 = 3"
  by code_simp

text \<open>What the function writes for a page size of at least 1, whatever the page.\<close>

lemma updatePaginationControls_shown:
  assumes "0 < perPage" and "1 < page_count totalItems perPage"
  shows "updatePaginationControls totalItems page perPage ctl =
     ctl\<lparr>hidden := False,
         pageInfo := ''Page '' @ show_int page @ '' of ''
                      @ show_int (page_count totalItems perPage),
         prevDisabled := (page \<le> 1),
         nextDisabled := (page_count totalItems perPage \<le> page)\<rparr>"
proof -
  have "totalItems \<noteq> 0"
  proof
    assume "totalItems = 0"
    then have "page_count totalItems perPage = 0"
      by (simp add: page_count_zero)
    with assms(2) show False
      by simp
  qed
  then show ?thesis
    using assms by (simp add: updatePaginationControls_def ceil_div_page_count Let_def)
qed

lemma updatePaginationControls_hidden:
  assumes "0 < perPage" and "page_count totalItems perPage \<le> 1"
  shows "updatePaginationControls totalItems page perPage ctl = ctl\<lparr>hidden := True\<rparr>"
  using assms by (simp add: updatePaginationControls_def ceil_div_page_count Let_def)

text \<open>With a page size of 0 the quotient is \<open>Infinity\<close> and the controls are shown.\<close>

lemma updatePaginationControls_no_page_size:
  "0 < totalItems \<Longrightarrow>
   updatePaginationControls totalItems page 0 ctl =
     ctl\<lparr>hidden := False, pageInfo := ''Page '' @ show_int page @ '' of Infinity'',
         prevDisabled := (page \<le> 1), nextDisabled := False\<rparr>"
  by (simp add: updatePaginationControls_def ceil_div_def)

subsection \<open>The page the handlers pass\<close>

text \<open>
  \<open>updatePaginationControls\<close> is called by \<open>updateTable\<close> only, with the current page
  and \<open>ROWS_PER_PAGE\<close>. Every handler keeps the current page among the pages of the
  list.
\<close>

lemma page_in_range_idle: "page_in_range idle"
  by (simp add: page_in_range_def idle_def)

lemma page_in_range_begin: "page_in_range s \<Longrightarrow> page_in_range (onLoadClick_begin s)"
  by (simp add: page_in_range_def onLoadClick_begin_def notify_def Let_def)

lemma page_in_range_settle: "page_in_range s \<Longrightarrow> page_in_range (onLoadClick_settle outcome s)"
  by (simp add: page_in_range_def onLoadClick_settle_def notify_def Let_def split: sum.splits)

lemma page_in_range_next: "page_in_range s \<Longrightarrow> page_in_range (goToNextPage s)"
  by (auto simp add: page_in_range_def goToNextPage_def ROWS_PER_PAGE_def ceil_div_page_count)

lemma page_in_range_prev: "page_in_range s \<Longrightarrow> page_in_range (goToPrevPage s)"
  by (auto simp add: page_in_range_def goToPrevPage_def)

text \<open>
  C7. For every number of items, every page size and every page of the list (1 up to
  \<open>ceil(total / perPage)\<close>), the controls are hidden exactly when
  \<open>ceil(total / perPage) \<le> 1\<close>; otherwise they are shown with the text "Page X of Y",
  the previous action is disabled exactly when \<open>page = 1\<close> and the next action
  exactly when \<open>page = ceil(total / perPage)\<close>. With a page size of 0 and at least one
  item the quotient is JavaScript's \<open>Infinity\<close>: the controls are shown, the previous
  action is disabled exactly on page 1 and the next action is never disabled; with no
  item at all the controls are hidden.
\<close>

theorem pagination_controls:
  "(0 < perPage \<longrightarrow>
      hidden (updatePaginationControls totalItems page perPage ctl) =
        (page_count totalItems perPage \<le> 1))
   \<and> (0 < perPage \<and> 1 < page_count totalItems perPage \<longrightarrow>
        pageInfo (updatePaginationControls totalItems page perPage ctl) =
          ''Page '' @ show_int page @ '' of '' @ show_int (page_count totalItems perPage))
   \<and> (0 < perPage \<and> 1 < page_count totalItems perPage
        \<and> 1 \<le> page \<and> page \<le> page_count totalItems perPage \<longrightarrow>
        prevDisabled (updatePaginationControls totalItems page perPage ctl) = (page = 1)
      \<and> nextDisabled (updatePaginationControls totalItems page perPage ctl) =
          (page = page_count totalItems perPage))
   \<and> (perPage = 0 \<and> 0 < totalItems \<longrightarrow>
        \<not> hidden (updatePaginationControls totalItems page perPage ctl)
      \<and> pageInfo (updatePaginationControls totalItems page perPage ctl) =
          ''Page '' @ show_int page @ '' of Infinity''
      \<and> \<not> nextDisabled (updatePaginationControls totalItems page perPage ctl))
   \<and> (perPage = 0 \<and> 0 < totalItems \<and> 1 \<le> page \<longrightarrow>
        prevDisabled (updatePaginationControls totalItems page perPage ctl) = (page = 1))
   \<and> (totalItems = 0 \<longrightarrow> hidden (updatePaginationControls totalItems page perPage ctl))"
proof -
  have a: "hidden (updatePaginationControls totalItems page perPage ctl) =
      (page_count totalItems perPage \<le> 1)" if "0 < perPage"
  proof (cases "page_count totalItems perPage \<le> 1")
    case True
    then show ?thesis
      by (simp add: updatePaginationControls_hidden [OF that])
  next
    case False
    then show ?thesis
      by (simp add: updatePaginationControls_shown [OF that])
  qed
  have b: "pageInfo (updatePaginationControls totalItems page perPage ctl) =
        ''Page '' @ show_int page @ '' of '' @ show_int (page_count totalItems perPage)"
      "prevDisabled (updatePaginationControls totalItems page perPage ctl) = (page \<le> 1)"
      "nextDisabled (updatePaginationControls totalItems page perPage ctl) =
        (page_count totalItems perPage \<le> page)"
    if "0 < perPage" and "1 < page_count totalItems perPage"
    by (simp_all add: updatePaginationControls_shown [OF that])
  have c: "prevDisabled (updatePaginationControls totalItems page perPage ctl) = (page = 1)
      \<and> nextDisabled (updatePaginationControls totalItems page perPage ctl) =
          (page = page_count totalItems perPage)"
    if "0 < perPage" and "1 < page_count totalItems perPage"
      and "1 \<le> page" and "page \<le> page_count totalItems perPage"
    using b(2,3) [OF that(1,2)] that(3,4) by auto
  have d: "\<not> hidden (updatePaginationControls totalItems page perPage ctl)
      \<and> pageInfo (updatePaginationControls totalItems page perPage ctl) =
          ''Page '' @ show_int page @ '' of Infinity''
      \<and> \<not> nextDisabled (updatePaginationControls totalItems page perPage ctl)"
    if "perPage = 0" and "0 < totalItems"
    using that by (simp add: updatePaginationControls_no_page_size)
  have d': "prevDisabled (updatePaginationControls totalItems page perPage ctl) = (page = 1)"
    if "perPage = 0" and "0 < totalItems" and "1 \<le> page"
    using that by (auto simp add: updatePaginationControls_no_page_size)
  have e: "hidden (updatePaginationControls totalItems page perPage ctl)" if "totalItems = 0"
    using that by (simp add: updatePaginationControls_def)
  from a b(1) c d d' e show ?thesis
    by blast
qed

theorem pagination_controls_witness:
  "(0 :: nat) < 10 \<and> 1 < page_count 25 10 \<and> (1 :: int) \<le> 3 \<and> 3 \<le> page_count 25 10
   \<and> \<not> hidden (updatePaginationControls 25 3 10 blank_controls)
   \<and> pageInfo (updatePaginationControls 25 3 10 blank_controls) = ''Page 3 of 3''
   \<and> \<not> prevDisabled (updatePaginationControls 25 3 10 blank_controls)
   \<and> nextDisabled (updatePaginationControls 25 3 10 blank_controls)
   \<and> prevDisabled (updatePaginationControls 25 1 10 blank_controls)
   \<and> \<not> nextDisabled (updatePaginationControls 25 1 10 blank_controls)
   \<and> hidden (updatePaginationControls 10 1 10 blank_controls)"
proof -
  have s: "show_int 3 = ''3''"
    by code_simp
  have t: "page_count 10 10 = 1"
    by code_simp
  show ?thesis
    using pagination_controls [of 10 25 3 blank_controls]
      pagination_controls [of 10 25 1 blank_controls]
      pagination_controls [of 10 10 1 blank_controls]
    by (simp add: page_count_25_10 s t)
qed

section \<open>Grouping by day\<close>

subsection \<open>One record\<close>







subsection \<open>The dictionary stays well formed\<close>








subsection \<open>All records\<close>

lemma credit_all_simps [simp]:
  "credit_all [] b = b" "credit_all (x # xs) b = credit_all xs (credit x b)"
  by (simp_all add: credit_all_def)






subsection \<open>The sort\<close>







subsection \<open>The key of a plain day\<close>

lemma length_fixed_digits [simp]: "length (fixed_digits w n) = w"
  by (induction w arbitrary: n) simp_all










subsection \<open>The order of the code units\<close>



lemma utc_day_of_sample:
  "map (utc_day_of sample_newDate) sample_items =
     [Some (2024, 1, 2), Some (2024, 1, 1), None, None, Some (2024, 1, 2)]"
  by code_simp





subsection \<open>Years outside 0000..9999\<close>







end
